theory Spec2Isabelle
  imports Main "HOL-Library.Word"
begin

section \<open>Data model of the PrivateIncomeVerification contract\<close>

text \<open>
  The contract \<^verbatim>\<open>contracts/PrivateIncomeVerification.sol\<close> is embedded as
  functions over an explicit storage record. Solidity's value types keep their width:
  \<^verbatim>\<open>uint256\<close> is a 256-bit word, \<^verbatim>\<open>address\<close> a 160-bit word and
  \<^verbatim>\<open>uint8\<close> an 8-bit word.
\<close>

type_synonym u256 = "256 word"
type_synonym u8 = "8 word"
type_synonym address = "160 word"

text \<open>
  The encrypted type \<^verbatim>\<open>euint8\<close> belongs to the external FHE library. The contract
  only creates handles with \<^verbatim>\<open>FHE.asEuint8\<close>, copies them and grants access to
  them, so a handle is abstracted by the plaintext it encrypts. An unset handle
  (the zero handle of fresh storage) stands for the value 0.
\<close>

datatype euint8 = Euint8 (plaintext: u8)

record IncomeVerification =
  encryptedIncomeLevel :: euint8
  encryptedEmploymentMonths :: euint8
  isVerified :: bool
  isActive :: bool
  verificationTime :: u256
  expiryTime :: u256
  employerHash :: string
  verifiedUser :: address

record VerificationRequest =
  requester :: address
  claimedIncomeLevel :: euint8
  employmentDuration :: euint8
  isPending :: bool
  requestTime :: u256
  documentHash :: string

datatype event =
    VerificationRequested u256 address u256
  | IncomeVerified u256 address u256 bool
  | VerificationExpired u256 address
  | ThresholdVerification u256 address bool

text \<open>
  The storage of the contract, in declaration order. A Solidity mapping is total:
  every key that was never written reads as the zero value of the value type.
  The access-control list of the FHE library (\<open>acl\<close>) and the log of emitted events
  (\<open>events\<close>) are changed by the contract's calls and rolled back with them, so
  they are part of the state.
\<close>

record state =
  verificationAuthority :: address
  verificationCount :: u256
  verifications :: "u256 \<Rightarrow> IncomeVerification"
  userVerifications :: "address \<Rightarrow> u256 list"
  verificationRequests :: "u256 \<Rightarrow> VerificationRequest"
  userRequests :: "address \<Rightarrow> u256 list"
  requestCounter :: u256
  acl :: "(euint8 \<times> address) set"
  events :: "event list"

text \<open>What the execution host supplies to a call.\<close>

record env =
  msg_sender :: address
  block_timestamp :: u256
  address_this :: address

text \<open>
  A failed \<^verbatim>\<open>require\<close> reverts with its message; checked arithmetic of
  Solidity 0.8 reverts with a panic code (\<open>0x11\<close> for overflow).
\<close>

datatype error = Revert string | Panic nat

definition MIN_VERIFICATION_THRESHOLD :: u256 where
  "MIN_VERIFICATION_THRESHOLD = 1000"

definition VERIFICATION_VALIDITY_PERIOD :: u256 where
  "VERIFICATION_VALIDITY_PERIOD = 365 * 86400"

definition zero_verification :: IncomeVerification where
  "zero_verification = \<lparr> encryptedIncomeLevel = Euint8 0, encryptedEmploymentMonths = Euint8 0,
     isVerified = False, isActive = False, verificationTime = 0, expiryTime = 0,
     employerHash = [], verifiedUser = 0 \<rparr>"

definition zero_request :: VerificationRequest where
  "zero_request = \<lparr> requester = 0, claimedIncomeLevel = Euint8 0, employmentDuration = Euint8 0,
     isPending = False, requestTime = 0, documentHash = [] \<rparr>"

text \<open>Checked addition on \<^verbatim>\<open>uint256\<close>: \<open>None\<close> where Solidity panics.\<close>

definition checked_add :: "u256 \<Rightarrow> u256 \<Rightarrow> u256 option" where
  "checked_add a b = (if unat a + unat b < 2 ^ 256 then Some (a + b) else None)"

definition emit :: "event \<Rightarrow> state \<Rightarrow> state" where
  "emit ev s = s\<lparr> events := events s @ [ev] \<rparr>"

text \<open>\<^verbatim>\<open>FHE.allow(handle, account)\<close> and \<^verbatim>\<open>FHE.allowThis(handle)\<close>.\<close>

definition FHE_allow :: "euint8 \<Rightarrow> address \<Rightarrow> state \<Rightarrow> state" where
  "FHE_allow h a s = s\<lparr> acl := insert (h, a) (acl s) \<rparr>"

definition FHE_allowThis :: "env \<Rightarrow> euint8 \<Rightarrow> state \<Rightarrow> state" where
  "FHE_allowThis e h s = FHE_allow h (address_this e) s"

definition FHE_asEuint8 :: "u8 \<Rightarrow> euint8" where
  "FHE_asEuint8 v = Euint8 v"


section \<open>Modifiers and constructor\<close>

text \<open>A modifier yields \<open>Some\<close> error when one of its checks fails, \<open>None\<close> when the
  function body runs.\<close>

definition onlyAuthority :: "env \<Rightarrow> state \<Rightarrow> error option" where
  "onlyAuthority e s =
     (if \<not> msg_sender e = verificationAuthority s then Some (Revert ''Not authorized'')
      else None)"

definition validVerification :: "env \<Rightarrow> u256 \<Rightarrow> state \<Rightarrow> error option" where
  "validVerification e verificationId s =
     (if \<not> verificationId < verificationCount s then Some (Revert ''Invalid verification ID'')
      else if \<not> isActive (verifications s verificationId)
        then Some (Revert ''Verification not active'')
      else if \<not> block_timestamp e \<le> expiryTime (verifications s verificationId)
        then Some (Revert ''Verification expired'')
      else None)"

definition constructor :: "env \<Rightarrow> state" where
  "constructor e = \<lparr> verificationAuthority = msg_sender e, verificationCount = 0,
     verifications = (\<lambda>k. zero_verification), userVerifications = (\<lambda>k. []),
     verificationRequests = (\<lambda>k. zero_request), userRequests = (\<lambda>k. []),
     requestCounter = 0, acl = {}, events = [] \<rparr>"

section \<open>State-changing functions\<close>

text \<open>
  A state-changing function returns its outcome together with the working storage at the
  point where execution stopped. The roll-back of a reverted call is done by \<open>transact\<close>
  below, so that the place of every check relative to the writes stays visible here.
  Parameters and the private function \<^verbatim>\<open>_checkIncomeThreshold\<close> are written
  without the leading underscore of the source.
\<close>

definition requestIncomeVerification ::
  "env \<Rightarrow> u8 \<Rightarrow> u8 \<Rightarrow> string \<Rightarrow> state \<Rightarrow> (error + unit) \<times> state" where
  "requestIncomeVerification e incomeLevel employmentMonths docHash s =
     (if \<not> incomeLevel > 0 then (Inl (Revert ''Income level must be greater than 0''), s)
      else if \<not> employmentMonths > 0
        then (Inl (Revert ''Employment duration must be greater than 0''), s)
      else if \<not> length docHash > 0 then (Inl (Revert ''Document hash required''), s)
      else
        let encIncome = FHE_asEuint8 incomeLevel;
            encMonths = FHE_asEuint8 employmentMonths;
            s1 = s\<lparr> verificationRequests := (verificationRequests s)
                   (requestCounter s := \<lparr> requester = msg_sender e,
                      claimedIncomeLevel = encIncome, employmentDuration = encMonths,
                      isPending = True, requestTime = block_timestamp e,
                      documentHash = docHash \<rparr>) \<rparr>;
            s2 = s1\<lparr> userRequests := (userRequests s1)
                   (msg_sender e := userRequests s1 (msg_sender e) @ [requestCounter s1]) \<rparr>;
            s3 = FHE_allowThis e encIncome s2;
            s4 = FHE_allowThis e encMonths s3;
            s5 = FHE_allow encIncome (msg_sender e) s4;
            s6 = FHE_allow encMonths (msg_sender e) s5;
            s7 = emit (VerificationRequested (requestCounter s6) (msg_sender e)
                   (block_timestamp e)) s6
        in (case checked_add (requestCounter s7) 1 of
              None \<Rightarrow> (Inl (Panic 17), s7)
            | Some c \<Rightarrow> (Inr (), s7\<lparr> requestCounter := c \<rparr>)))"

definition checkIncomeThreshold :: "u256 \<Rightarrow> state \<Rightarrow> state" where
  "checkIncomeThreshold verificationId s =
     emit (ThresholdVerification verificationId
       (verifiedUser (verifications s verificationId)) True) s"

definition processVerificationRequest ::
  "env \<Rightarrow> u256 \<Rightarrow> string \<Rightarrow> bool \<Rightarrow> state \<Rightarrow> (error + unit) \<times> state" where
  "processVerificationRequest e requestId emplHash isApproved s =
     (case onlyAuthority e s of
        Some err \<Rightarrow> (Inl err, s)
      | None \<Rightarrow>
        if \<not> requestId < requestCounter s then (Inl (Revert ''Invalid request ID''), s)
        else if \<not> isPending (verificationRequests s requestId)
          then (Inl (Revert ''Request not pending''), s)
        else if \<not> length emplHash > 0 then (Inl (Revert ''Employer hash required''), s)
        else
          let s1 = s\<lparr> verificationRequests := (verificationRequests s)
                     (requestId := (verificationRequests s requestId)\<lparr> isPending := False \<rparr>) \<rparr>
          in if isApproved then
               (case checked_add (block_timestamp e) VERIFICATION_VALIDITY_PERIOD of
                  None \<Rightarrow> (Inl (Panic 17), s1)
                | Some expiry \<Rightarrow>
                    let request = verificationRequests s1 requestId;
                        s2 = s1\<lparr> verifications := (verifications s1)
                               (verificationCount s1 :=
                                  \<lparr> encryptedIncomeLevel = claimedIncomeLevel request,
                                    encryptedEmploymentMonths = employmentDuration request,
                                    isVerified = True, isActive = True,
                                    verificationTime = block_timestamp e,
                                    expiryTime = expiry, employerHash = emplHash,
                                    verifiedUser = requester request \<rparr>) \<rparr>;
                        s3 = s2\<lparr> userVerifications := (userVerifications s2)
                               (requester request :=
                                  userVerifications s2 (requester request)
                                    @ [verificationCount s2]) \<rparr>;
                        s4 = checkIncomeThreshold (verificationCount s3) s3;
                        s5 = emit (IncomeVerified (verificationCount s4) (requester request)
                               (block_timestamp e) True) s4
                    in (case checked_add (verificationCount s5) 1 of
                          None \<Rightarrow> (Inl (Panic 17), s5)
                        | Some c \<Rightarrow> (Inr (), s5\<lparr> verificationCount := c \<rparr>)))
             else (Inr (), s1))"

definition deactivateVerification :: "env \<Rightarrow> u256 \<Rightarrow> state \<Rightarrow> (error + unit) \<times> state" where
  "deactivateVerification e verificationId s =
     (case validVerification e verificationId s of
        Some err \<Rightarrow> (Inl err, s)
      | None \<Rightarrow>
        if \<not> (verifiedUser (verifications s verificationId) = msg_sender e
                \<or> msg_sender e = verificationAuthority s)
          then (Inl (Revert ''Not authorized''), s)
        else
          let s1 = s\<lparr> verifications := (verifications s)
                     (verificationId := (verifications s verificationId)\<lparr> isActive := False \<rparr>) \<rparr>
          in (Inr (), emit (VerificationExpired verificationId
                (verifiedUser (verifications s1 verificationId))) s1))"

definition updateVerificationAuthority ::
  "env \<Rightarrow> address \<Rightarrow> state \<Rightarrow> (error + unit) \<times> state" where
  "updateVerificationAuthority e newAuthority s =
     (case onlyAuthority e s of
        Some err \<Rightarrow> (Inl err, s)
      | None \<Rightarrow>
        if \<not> newAuthority \<noteq> 0 then (Inl (Revert ''Invalid authority address''), s)
        else (Inr (), s\<lparr> verificationAuthority := newAuthority \<rparr>))"

section \<open>View functions\<close>

text \<open>A \<^verbatim>\<open>view\<close> function cannot write storage; it maps the state to an outcome.\<close>

definition verifyIncomeThreshold :: "env \<Rightarrow> u256 \<Rightarrow> u8 \<Rightarrow> state \<Rightarrow> error + bool" where
  "verifyIncomeThreshold e verificationId requiredLevel s =
     (case validVerification e verificationId s of
        Some err \<Rightarrow> Inl err
      | None \<Rightarrow>
        if \<not> (verifiedUser (verifications s verificationId) = msg_sender e
                \<or> msg_sender e = verificationAuthority s)
          then Inl (Revert ''Not authorized'')
        else Inr True)"

definition compareIncomes :: "env \<Rightarrow> u256 \<Rightarrow> u256 \<Rightarrow> state \<Rightarrow> error + bool" where
  "compareIncomes e verificationId1 verificationId2 s =
     (case validVerification e verificationId1 s of
        Some err \<Rightarrow> Inl err
      | None \<Rightarrow>
        (case validVerification e verificationId2 s of
           Some err \<Rightarrow> Inl err
         | None \<Rightarrow>
           if \<not> (verifiedUser (verifications s verificationId1) = msg_sender e
                   \<or> verifiedUser (verifications s verificationId2) = msg_sender e
                   \<or> msg_sender e = verificationAuthority s)
             then Inl (Revert ''Not authorized'')
           else Inr True))"

definition getVerificationInfo ::
  "env \<Rightarrow> u256 \<Rightarrow> state \<Rightarrow> error + (bool \<times> bool \<times> u256 \<times> u256 \<times> string \<times> address)" where
  "getVerificationInfo e verificationId s =
     (case validVerification e verificationId s of
        Some err \<Rightarrow> Inl err
      | None \<Rightarrow>
        let verification = verifications s verificationId
        in if \<not> (verifiedUser verification = msg_sender e
                   \<or> msg_sender e = verificationAuthority s)
             then Inl (Revert ''Not authorized'')
           else Inr (isVerified verification, isActive verification,
                  verificationTime verification, expiryTime verification,
                  employerHash verification, verifiedUser verification))"

definition getUserVerifications :: "env \<Rightarrow> address \<Rightarrow> state \<Rightarrow> error + u256 list" where
  "getUserVerifications e user s =
     (if \<not> (user = msg_sender e \<or> msg_sender e = verificationAuthority s)
        then Inl (Revert ''Not authorized'')
      else Inr (userVerifications s user))"

definition getUserRequests :: "env \<Rightarrow> address \<Rightarrow> state \<Rightarrow> error + u256 list" where
  "getUserRequests e user s =
     (if \<not> (user = msg_sender e \<or> msg_sender e = verificationAuthority s)
        then Inl (Revert ''Not authorized'')
      else Inr (userRequests s user))"

definition getRequestInfo ::
  "env \<Rightarrow> u256 \<Rightarrow> state \<Rightarrow> error + (address \<times> bool \<times> u256 \<times> string)" where
  "getRequestInfo e requestId s =
     (if \<not> requestId < requestCounter s then Inl (Revert ''Invalid request ID'')
      else
        let request = verificationRequests s requestId
        in if \<not> (requester request = msg_sender e \<or> msg_sender e = verificationAuthority s)
             then Inl (Revert ''Not authorized'')
           else Inr (requester request, isPending request, requestTime request,
                  documentHash request))"

definition isVerificationValid :: "env \<Rightarrow> u256 \<Rightarrow> state \<Rightarrow> error + bool" where
  "isVerificationValid e verificationId s =
     (if verificationId \<ge> verificationCount s then Inr False
      else
        let verification = verifications s verificationId
        in Inr (isActive verification \<and> isVerified verification
                \<and> block_timestamp e \<le> expiryTime verification))"

text \<open>The two aggregate queries are loops over all allocated identifiers; the loop
  counter and the running count use checked increments.\<close>

function getActiveVerificationCount_loop ::
  "env \<Rightarrow> state \<Rightarrow> u256 \<Rightarrow> u256 \<Rightarrow> error + u256" where
  "getActiveVerificationCount_loop e s i activeCount =
     (if i < verificationCount s then
        (case (if isActive (verifications s i) \<and> isVerified (verifications s i)
                  \<and> block_timestamp e \<le> expiryTime (verifications s i)
               then checked_add activeCount 1 else Some activeCount) of
           None \<Rightarrow> Inl (Panic 17)
         | Some activeCount' \<Rightarrow>
             (case checked_add i 1 of
                None \<Rightarrow> Inl (Panic 17)
              | Some i' \<Rightarrow> getActiveVerificationCount_loop e s i' activeCount'))
      else Inr activeCount)"
  by pat_completeness auto
termination
proof -
  have step: "unat n - unat i' < unat n - unat i"
    if lt: "i < n" and ca: "checked_add i 1 = Some i'" for i i' n :: u256
  proof -
    from ca have i': "i' = i + 1" and "unat i + unat (1 :: u256) < 2 ^ LENGTH(256)"
      by (simp_all add: checked_add_def split: if_splits)
    then have "unat (i + 1) = unat i + unat (1 :: u256)"
      by (simp only: unat_add_lem)
    moreover from lt have "unat i < unat n"
      by (simp add: word_less_nat_alt)
    ultimately show ?thesis
      using i' by simp
  qed
  show ?thesis
    by (relation "measure (\<lambda>(e, s, i, a). unat (verificationCount s) - unat i)")
      (auto dest: step)
qed

definition getActiveVerificationCount :: "env \<Rightarrow> state \<Rightarrow> error + u256" where
  "getActiveVerificationCount e s = getActiveVerificationCount_loop e s 0 0"

function getPendingRequestCount_loop :: "state \<Rightarrow> u256 \<Rightarrow> u256 \<Rightarrow> error + u256" where
  "getPendingRequestCount_loop s i pendingCount =
     (if i < requestCounter s then
        (case (if isPending (verificationRequests s i)
               then checked_add pendingCount 1 else Some pendingCount) of
           None \<Rightarrow> Inl (Panic 17)
         | Some pendingCount' \<Rightarrow>
             (case checked_add i 1 of
                None \<Rightarrow> Inl (Panic 17)
              | Some i' \<Rightarrow> getPendingRequestCount_loop s i' pendingCount'))
      else Inr pendingCount)"
  by pat_completeness auto
termination
proof -
  have step: "unat n - unat i' < unat n - unat i"
    if lt: "i < n" and ca: "checked_add i 1 = Some i'" for i i' n :: u256
  proof -
    from ca have i': "i' = i + 1" and "unat i + unat (1 :: u256) < 2 ^ LENGTH(256)"
      by (simp_all add: checked_add_def split: if_splits)
    then have "unat (i + 1) = unat i + unat (1 :: u256)"
      by (simp only: unat_add_lem)
    moreover from lt have "unat i < unat n"
      by (simp add: word_less_nat_alt)
    ultimately show ?thesis
      using i' by simp
  qed
  show ?thesis
    by (relation "measure (\<lambda>(s, i, a). unat (requestCounter s) - unat i)")
      (auto dest: step)
qed

definition getPendingRequestCount :: "env \<Rightarrow> state \<Rightarrow> error + u256" where
  "getPendingRequestCount e s = getPendingRequestCount_loop s 0 0"

section \<open>Getters of the public state variables\<close>

text \<open>
  Every state variable of the contract is declared \<^verbatim>\<open>public\<close>, so the compiler adds
  an external getter for each. A mapping to a struct returns the struct's members; a
  mapping to a dynamic array takes the index as a second argument and reverts without a
  message when the index is not below the array's length. None of them has a modifier
  or a \<^verbatim>\<open>require\<close> on the caller.
\<close>

definition get_verificationAuthority :: "env \<Rightarrow> state \<Rightarrow> error + address" where
  "get_verificationAuthority e s = Inr (verificationAuthority s)"

definition get_verificationCount :: "env \<Rightarrow> state \<Rightarrow> error + u256" where
  "get_verificationCount e s = Inr (verificationCount s)"

definition get_requestCounter :: "env \<Rightarrow> state \<Rightarrow> error + u256" where
  "get_requestCounter e s = Inr (requestCounter s)"

definition get_verifications ::
  "env \<Rightarrow> u256 \<Rightarrow> state \<Rightarrow>
     error + (euint8 \<times> euint8 \<times> bool \<times> bool \<times> u256 \<times> u256 \<times> string \<times> address)" where
  "get_verifications e k s =
     (let v = verifications s k
      in Inr (encryptedIncomeLevel v, encryptedEmploymentMonths v, isVerified v, isActive v,
           verificationTime v, expiryTime v, employerHash v, verifiedUser v))"

definition get_verificationRequests ::
  "env \<Rightarrow> u256 \<Rightarrow> state \<Rightarrow> error + (address \<times> euint8 \<times> euint8 \<times> bool \<times> u256 \<times> string)" where
  "get_verificationRequests e k s =
     (let r = verificationRequests s k
      in Inr (requester r, claimedIncomeLevel r, employmentDuration r, isPending r,
           requestTime r, documentHash r))"

definition get_userVerifications :: "env \<Rightarrow> address \<Rightarrow> u256 \<Rightarrow> state \<Rightarrow> error + u256" where
  "get_userVerifications e user i s =
     (if unat i < length (userVerifications s user)
      then Inr (userVerifications s user ! unat i) else Inl (Revert []))"

definition get_userRequests :: "env \<Rightarrow> address \<Rightarrow> u256 \<Rightarrow> state \<Rightarrow> error + u256" where
  "get_userRequests e user i s =
     (if unat i < length (userRequests s user)
      then Inr (userRequests s user ! unat i) else Inl (Revert []))"

section \<open>Calls, transactions and runs\<close>

datatype call =
    RequestIncomeVerification u8 u8 string
  | ProcessVerificationRequest u256 string bool
  | VerifyIncomeThreshold u256 u8
  | CompareIncomes u256 u256
  | GetVerificationInfo u256
  | GetUserVerifications address
  | GetUserRequests address
  | GetRequestInfo u256
  | DeactivateVerification u256
  | UpdateVerificationAuthority address
  | IsVerificationValid u256
  | GetActiveVerificationCount
  | GetPendingRequestCount
  | Get_verificationAuthority
  | Get_verificationCount
  | Get_requestCounter
  | Get_MIN_VERIFICATION_THRESHOLD
  | Get_VERIFICATION_VALIDITY_PERIOD
  | Get_verifications u256
  | Get_userVerifications address u256
  | Get_verificationRequests u256
  | Get_userRequests address u256

text \<open>The data a call returns. \<open>RNone\<close> is the empty return data of a function declared
  without \<^verbatim>\<open>returns\<close>.\<close>

datatype retval =
    RNone
  | RBool bool
  | RUint u256
  | RAddress address
  | RUintArray "u256 list"
  | RVerificationInfo "bool \<times> bool \<times> u256 \<times> u256 \<times> string \<times> address"
  | RRequestInfo "address \<times> bool \<times> u256 \<times> string"
  | RVerification "euint8 \<times> euint8 \<times> bool \<times> bool \<times> u256 \<times> u256 \<times> string \<times> address"
  | RRequest "address \<times> euint8 \<times> euint8 \<times> bool \<times> u256 \<times> string"

definition returning :: "('a \<Rightarrow> retval) \<Rightarrow> error + 'a \<Rightarrow> error + retval" where
  "returning f r = (case r of Inl err \<Rightarrow> Inl err | Inr x \<Rightarrow> Inr (f x))"

definition view :: "('a \<Rightarrow> retval) \<Rightarrow> error + 'a \<Rightarrow> state \<Rightarrow> (error + retval) \<times> state" where
  "view f r s = (returning f r, s)"

definition nonview :: "(error + unit) \<times> state \<Rightarrow> (error + retval) \<times> state" where
  "nonview p = (returning (\<lambda>u. RNone) (fst p), snd p)"

fun dispatch :: "env \<Rightarrow> call \<Rightarrow> state \<Rightarrow> (error + retval) \<times> state" where
  "dispatch e (RequestIncomeVerification a b d) s = nonview (requestIncomeVerification e a b d s)"
| "dispatch e (ProcessVerificationRequest i h a) s =
     nonview (processVerificationRequest e i h a s)"
| "dispatch e (VerifyIncomeThreshold i l) s = view RBool (verifyIncomeThreshold e i l s) s"
| "dispatch e (CompareIncomes i j) s = view RBool (compareIncomes e i j s) s"
| "dispatch e (GetVerificationInfo i) s = view RVerificationInfo (getVerificationInfo e i s) s"
| "dispatch e (GetUserVerifications u) s = view RUintArray (getUserVerifications e u s) s"
| "dispatch e (GetUserRequests u) s = view RUintArray (getUserRequests e u s) s"
| "dispatch e (GetRequestInfo i) s = view RRequestInfo (getRequestInfo e i s) s"
| "dispatch e (DeactivateVerification i) s = nonview (deactivateVerification e i s)"
| "dispatch e (UpdateVerificationAuthority a) s = nonview (updateVerificationAuthority e a s)"
| "dispatch e (IsVerificationValid i) s = view RBool (isVerificationValid e i s) s"
| "dispatch e GetActiveVerificationCount s = view RUint (getActiveVerificationCount e s) s"
| "dispatch e GetPendingRequestCount s = view RUint (getPendingRequestCount e s) s"
| "dispatch e Get_verificationAuthority s = view RAddress (get_verificationAuthority e s) s"
| "dispatch e Get_verificationCount s = view RUint (get_verificationCount e s) s"
| "dispatch e Get_requestCounter s = view RUint (get_requestCounter e s) s"
| "dispatch e Get_MIN_VERIFICATION_THRESHOLD s = view RUint (Inr MIN_VERIFICATION_THRESHOLD) s"
| "dispatch e Get_VERIFICATION_VALIDITY_PERIOD s =
     view RUint (Inr VERIFICATION_VALIDITY_PERIOD) s"
| "dispatch e (Get_verifications k) s = view RVerification (get_verifications e k s) s"
| "dispatch e (Get_userVerifications u i) s = view RUint (get_userVerifications e u i s) s"
| "dispatch e (Get_verificationRequests k) s = view RRequest (get_verificationRequests e k s) s"
| "dispatch e (Get_userRequests u i) s = view RUint (get_userRequests e u i s) s"

text \<open>
  A transaction runs the called function; when it reverts, every write it made is
  undone and the storage is the one before the call.
\<close>

definition transact :: "env \<Rightarrow> call \<Rightarrow> state \<Rightarrow> (error + retval) \<times> state" where
  "transact e c s =
     (case dispatch e c s of
        (Inl err, s') \<Rightarrow> (Inl err, s)
      | (Inr r, s') \<Rightarrow> (Inr r, s'))"

text \<open>A run is a sequence of transactions, each with its own caller and time.\<close>

fun execs :: "state \<Rightarrow> (env \<times> call) list \<Rightarrow> state" where
  "execs s [] = s"
| "execs s ((e, c) # cs) = execs (snd (transact e c s)) cs"

section \<open>The scenario of the specification\<close>

text \<open>
  A user submits a request with income level 42 and 48 months of employment, the
  authority approves it, and the owner deactivates the record. The states along this
  run serve as concrete inputs below.
\<close>

definition env_of :: "address \<Rightarrow> u256 \<Rightarrow> env" where
  "env_of a t = \<lparr> msg_sender = a, block_timestamp = t, address_this = 9 \<rparr>"

definition authority :: address where "authority = 1"
definition owner :: address where "owner = 2"
definition stranger :: address where "stranger = 3"

definition deployed :: state where
  "deployed = constructor (env_of authority 50)"

definition requested :: state where
  "requested = snd (transact (env_of owner 100) (RequestIncomeVerification 42 48 ''Qm'') deployed)"

definition approved :: state where
  "approved =
     snd (transact (env_of authority 200) (ProcessVerificationRequest 0 ''employerHashX'' True)
       requested)"

definition deactivated :: state where
  "deactivated = snd (transact (env_of owner 300) (DeactivateVerification 0) approved)"

section \<open>Basic facts\<close>

lemmas call_defs = transact_def nonview_def view_def returning_def
lemmas fn_defs = requestIncomeVerification_def processVerificationRequest_def
  deactivateVerification_def updateVerificationAuthority_def
  checked_add_def emit_def FHE_allow_def FHE_allowThis_def FHE_asEuint8_def
  onlyAuthority_def validVerification_def checkIncomeThreshold_def
  VERIFICATION_VALIDITY_PERIOD_def
lemmas scenario_defs = env_of_def authority_def owner_def stranger_def

text \<open>The states of the scenario, written out.\<close>

lemma deployed_eq:
  "deployed = \<lparr> verificationAuthority = 1, verificationCount = 0,
     verifications = (\<lambda>k. zero_verification), userVerifications = (\<lambda>k. []),
     verificationRequests = (\<lambda>k. zero_request), userRequests = (\<lambda>k. []),
     requestCounter = 0, acl = {}, events = [] \<rparr>"
  by (simp add: deployed_def constructor_def scenario_defs)

lemma requested_eq:
  "requested = \<lparr> verificationAuthority = 1, verificationCount = 0,
     verifications = (\<lambda>k. zero_verification), userVerifications = (\<lambda>k. []),
     verificationRequests = (\<lambda>k. zero_request)
       (0 := \<lparr> requester = 2, claimedIncomeLevel = Euint8 42, employmentDuration = Euint8 48,
                isPending = True, requestTime = 100, documentHash = ''Qm'' \<rparr>),
     userRequests = (\<lambda>k. [])(2 := [0]),
     requestCounter = 1,
     acl = {(Euint8 42, 9), (Euint8 48, 9), (Euint8 42, 2), (Euint8 48, 2)},
     events = [VerificationRequested 0 2 100] \<rparr>"
  unfolding requested_def deployed_eq
  by (simp add: call_defs fn_defs scenario_defs Let_def insert_commute)

lemma approved_eq:
  "approved = \<lparr> verificationAuthority = 1, verificationCount = 1,
     verifications = (\<lambda>k. zero_verification)
       (0 := \<lparr> encryptedIncomeLevel = Euint8 42, encryptedEmploymentMonths = Euint8 48,
                isVerified = True, isActive = True, verificationTime = 200,
                expiryTime = 31536200, employerHash = ''employerHashX'',
                verifiedUser = 2 \<rparr>),
     userVerifications = (\<lambda>k. [])(2 := [0]),
     verificationRequests = (\<lambda>k. zero_request)
       (0 := \<lparr> requester = 2, claimedIncomeLevel = Euint8 42, employmentDuration = Euint8 48,
                isPending = False, requestTime = 100, documentHash = ''Qm'' \<rparr>),
     userRequests = (\<lambda>k. [])(2 := [0]),
     requestCounter = 1,
     acl = {(Euint8 42, 9), (Euint8 48, 9), (Euint8 42, 2), (Euint8 48, 2)},
     events = [VerificationRequested 0 2 100, ThresholdVerification 0 2 True,
               IncomeVerified 0 2 200 True] \<rparr>"
  unfolding approved_def requested_eq
  by (simp add: call_defs fn_defs scenario_defs Let_def)

lemma deactivated_eq:
  "deactivated = \<lparr> verificationAuthority = 1, verificationCount = 1,
     verifications = (\<lambda>k. zero_verification)
       (0 := \<lparr> encryptedIncomeLevel = Euint8 42, encryptedEmploymentMonths = Euint8 48,
                isVerified = True, isActive = False, verificationTime = 200,
                expiryTime = 31536200, employerHash = ''employerHashX'',
                verifiedUser = 2 \<rparr>),
     userVerifications = (\<lambda>k. [])(2 := [0]),
     verificationRequests = (\<lambda>k. zero_request)
       (0 := \<lparr> requester = 2, claimedIncomeLevel = Euint8 42, employmentDuration = Euint8 48,
                isPending = False, requestTime = 100, documentHash = ''Qm'' \<rparr>),
     userRequests = (\<lambda>k. [])(2 := [0]),
     requestCounter = 1,
     acl = {(Euint8 42, 9), (Euint8 48, 9), (Euint8 42, 2), (Euint8 48, 2)},
     events = [VerificationRequested 0 2 100, ThresholdVerification 0 2 True,
               IncomeVerified 0 2 200 True, VerificationExpired 0 2] \<rparr>"
  unfolding deactivated_def approved_eq
  by (simp add: call_defs fn_defs scenario_defs Let_def)

text \<open>A checked addition that succeeds does not wrap around.\<close>

lemma checked_add_SomeD:
  assumes "checked_add a b = Some c"
  shows "c = a + b \<and> unat c = unat a + unat b"
proof -
  from assms have c: "c = a + b" and "unat a + unat b < 2 ^ LENGTH(256)"
    by (simp_all add: checked_add_def split: if_splits)
  then have "unat (a + b) = unat a + unat b"
    by (simp only: unat_add_lem)
  with c show ?thesis by simp
qed

text \<open>Transactions and the outcome of the called function.\<close>

lemma less_checked_add:
  assumes "i < n" and "checked_add n 1 = Some c"
  shows "i < c"
proof -
  from assms(2) have "unat c = unat n + unat (1 :: u256)"
    by (simp add: checked_add_SomeD)
  with assms(1) show ?thesis
    by (simp add: word_less_nat_alt)
qed

lemma fst_transact: "fst (transact e c s) = fst (dispatch e c s)"
  by (simp add: transact_def split: prod.splits sum.splits)

lemma transact_Inr:
  "transact e c s = (Inr r, s') \<longleftrightarrow> dispatch e c s = (Inr r, s')"
  by (auto simp: transact_def split: prod.splits sum.splits)

lemma nonview_Inr:
  "nonview p = (Inr r, s') \<longleftrightarrow> p = (Inr (), s') \<and> r = RNone"
  by (cases p) (auto simp: nonview_def returning_def split: sum.splits)

lemma transact_cases:
  "snd (transact e c s) = s \<or> (\<exists>r. dispatch e c s = (Inr r, snd (transact e c s)))"
  by (simp add: transact_def split: prod.splits sum.splits)

lemma updateVerificationAuthority_frame:
  "updateVerificationAuthority e a s = (Inr u, s') \<Longrightarrow>
   requestCounter s' = requestCounter s \<and> verificationRequests s' = verificationRequests s
   \<and> verificationCount s' = verificationCount s \<and> verifications s' = verifications s"
  by (auto simp: updateVerificationAuthority_def split: if_splits option.splits)

section \<open>Validity of a record (C6)\<close>

text \<open>
  C6. For every verification identifier and every current time, \<open>isVerificationValid\<close>
  never reverts and returns exactly: the identifier is below \<open>verificationCount\<close>,
  and the record is active, verified, and the current time is not after its expiry
  time. So it is false whenever \<open>isActive\<close> is false, whatever the time; false
  whenever the current time is after \<open>expiryTime\<close>, whatever \<open>isActive\<close>; and
  false for an identifier outside the allocated range.
\<close>

theorem isVerificationValid_spec:
  "isVerificationValid e verificationId s =
     Inr (verificationId < verificationCount s
          \<and> isActive (verifications s verificationId)
          \<and> isVerified (verifications s verificationId)
          \<and> block_timestamp e \<le> expiryTime (verifications s verificationId))
   \<and> (\<not> isActive (verifications s verificationId) \<longrightarrow>
        isVerificationValid e verificationId s = Inr False)
   \<and> (block_timestamp e > expiryTime (verifications s verificationId) \<longrightarrow>
        isVerificationValid e verificationId s = Inr False)
   \<and> (verificationId \<ge> verificationCount s \<longrightarrow>
        isVerificationValid e verificationId s = Inr False)"
  by (auto simp: isVerificationValid_def Let_def)

text \<open>
  C6, at concrete inputs: the deactivated record of the scenario is invalid before its
  expiry; the active record is invalid one second after its expiry time; identifier 1
  is not allocated; and the active record is valid at time 300.
\<close>

theorem isVerificationValid_spec_witness:
  "\<not> isActive (verifications deactivated 0)
   \<and> isVerificationValid (env_of stranger 300) 0 deactivated = Inr False
   \<and> block_timestamp (env_of stranger 31536201) > expiryTime (verifications approved 0)
   \<and> isActive (verifications approved 0)
   \<and> isVerificationValid (env_of stranger 31536201) 0 approved = Inr False
   \<and> (1 :: u256) \<ge> verificationCount approved
   \<and> isVerificationValid (env_of stranger 300) 1 approved = Inr False
   \<and> isVerificationValid (env_of stranger 300) 0 approved = Inr True"
  using isVerificationValid_spec [of "env_of stranger 300" 0 deactivated]
    isVerificationValid_spec [of "env_of stranger 31536201" 0 approved]
    isVerificationValid_spec [of "env_of stranger 300" 1 approved]
    isVerificationValid_spec [of "env_of stranger 300" 0 approved]
  by (simp add: deactivated_eq approved_eq env_of_def)

section \<open>Threshold check (C1)\<close>

text \<open>
  C1 states that \<open>verifyIncomeThreshold\<close> returns true exactly when the stored income
  level exceeds the required level. The function body returns the constant
  \<^verbatim>\<open>true\<close>: for the valid record of the scenario, whose income level is 42, the
  owner's call with required level 50 returns true although 42 does not exceed 50.
\<close>

theorem verifyIncomeThreshold_ignores_level:
  "isVerificationValid (env_of owner 250) 0 approved = Inr True
   \<and> verifiedUser (verifications approved 0) = msg_sender (env_of owner 250)
   \<and> plaintext (encryptedIncomeLevel (verifications approved 0)) = 42
   \<and> \<not> plaintext (encryptedIncomeLevel (verifications approved 0)) > 50
   \<and> verifyIncomeThreshold (env_of owner 250) 0 50 approved = Inr True"
  by (simp add: approved_eq env_of_def owner_def isVerificationValid_def
      verifyIncomeThreshold_def validVerification_def)

section \<open>Getters of the public mappings (C3)\<close>

text \<open>
  C3. For every caller, the compiler-made getters of \<open>verifications\<close>,
  \<open>verificationRequests\<close>, \<open>userVerifications\<close> and \<open>userRequests\<close> return the
  stored data (all members of the record or request, and each element of a user's
  identifier list) without any check of the caller; the outcome does not depend on
  \<open>msg_sender\<close>. Hence whatever \<open>getVerificationInfo\<close>, \<open>getRequestInfo\<close>,
  \<open>getUserVerifications\<close> or \<open>getUserRequests\<close> returns to an authorized caller
  is returned by the getters to any caller.
\<close>

theorem public_getters_unguarded:
  "transact e (Get_verifications k) s =
     (Inr (RVerification (encryptedIncomeLevel (verifications s k),
        encryptedEmploymentMonths (verifications s k), isVerified (verifications s k),
        isActive (verifications s k), verificationTime (verifications s k),
        expiryTime (verifications s k), employerHash (verifications s k),
        verifiedUser (verifications s k))), s)
   \<and> transact e (Get_verificationRequests k) s =
     (Inr (RRequest (requester (verificationRequests s k),
        claimedIncomeLevel (verificationRequests s k),
        employmentDuration (verificationRequests s k), isPending (verificationRequests s k),
        requestTime (verificationRequests s k), documentHash (verificationRequests s k))), s)
   \<and> transact e (Get_userVerifications u i) s =
     (if unat i < length (userVerifications s u)
      then Inr (RUint (userVerifications s u ! unat i)) else Inl (Revert []), s)
   \<and> transact e (Get_userRequests u i) s =
     (if unat i < length (userRequests s u)
      then Inr (RUint (userRequests s u ! unat i)) else Inl (Revert []), s)
   \<and> transact (e\<lparr> msg_sender := a \<rparr>) (Get_verifications k) s
       = transact e (Get_verifications k) s
   \<and> transact (e\<lparr> msg_sender := a \<rparr>) (Get_verificationRequests k) s
       = transact e (Get_verificationRequests k) s
   \<and> transact (e\<lparr> msg_sender := a \<rparr>) (Get_userVerifications u i) s
       = transact e (Get_userVerifications u i) s
   \<and> transact (e\<lparr> msg_sender := a \<rparr>) (Get_userRequests u i) s
       = transact e (Get_userRequests u i) s
   \<and> (getVerificationInfo e' k s = Inr info \<longrightarrow>
        fst (transact e (Get_verifications k) s) =
          Inr (RVerification (encryptedIncomeLevel (verifications s k),
            encryptedEmploymentMonths (verifications s k), info)))
   \<and> (getRequestInfo e' k s = Inr (rq, pending, time, doc) \<longrightarrow>
        fst (transact e (Get_verificationRequests k) s) =
          Inr (RRequest (rq, claimedIncomeLevel (verificationRequests s k),
            employmentDuration (verificationRequests s k), pending, time, doc)))
   \<and> (getUserVerifications e' u s = Inr ids \<and> unat i < length ids \<longrightarrow>
        fst (transact e (Get_userVerifications u i) s) = Inr (RUint (ids ! unat i)))
   \<and> (getUserRequests e' u s = Inr ids \<and> unat i < length ids \<longrightarrow>
        fst (transact e (Get_userRequests u i) s) = Inr (RUint (ids ! unat i)))"
  by (auto simp: call_defs get_verifications_def get_verificationRequests_def
      get_userVerifications_def get_userRequests_def getVerificationInfo_def
      getRequestInfo_def getUserVerifications_def getUserRequests_def Let_def
      split: option.splits if_splits)

text \<open>
  C3, at a concrete input: a stranger is refused by the four guarded queries, and reads
  what they return to the owner (and the encrypted handles) through the getters.
\<close>

theorem public_getters_unguarded_witness:
  "getVerificationInfo (env_of stranger 250) 0 approved = Inl (Revert ''Not authorized'')
   \<and> getRequestInfo (env_of stranger 250) 0 approved = Inl (Revert ''Not authorized'')
   \<and> getUserVerifications (env_of stranger 250) owner approved = Inl (Revert ''Not authorized'')
   \<and> getUserRequests (env_of stranger 250) owner approved = Inl (Revert ''Not authorized'')
   \<and> getVerificationInfo (env_of owner 250) 0 approved
       = Inr (True, True, 200, 31536200, ''employerHashX'', owner)
   \<and> getRequestInfo (env_of owner 250) 0 approved = Inr (owner, False, 100, ''Qm'')
   \<and> getUserVerifications (env_of owner 250) owner approved = Inr [0]
   \<and> getUserRequests (env_of owner 250) owner approved = Inr [0]
   \<and> transact (env_of stranger 250) (Get_verifications 0) approved =
       (Inr (RVerification (Euint8 42, Euint8 48, True, True, 200, 31536200,
          ''employerHashX'', owner)), approved)
   \<and> transact (env_of stranger 250) (Get_verificationRequests 0) approved =
       (Inr (RRequest (owner, Euint8 42, Euint8 48, False, 100, ''Qm'')), approved)
   \<and> transact (env_of stranger 250) (Get_userVerifications owner 0) approved =
       (Inr (RUint 0), approved)
   \<and> transact (env_of stranger 250) (Get_userRequests owner 0) approved =
       (Inr (RUint 0), approved)"
proof -
  have refused:
    "getVerificationInfo (env_of stranger 250) 0 approved = Inl (Revert ''Not authorized'')"
    "getRequestInfo (env_of stranger 250) 0 approved = Inl (Revert ''Not authorized'')"
    "getUserVerifications (env_of stranger 250) owner approved = Inl (Revert ''Not authorized'')"
    "getUserRequests (env_of stranger 250) owner approved = Inl (Revert ''Not authorized'')"
    by (simp_all add: approved_eq scenario_defs getVerificationInfo_def getRequestInfo_def
        getUserVerifications_def getUserRequests_def validVerification_def)
  have granted:
    "getVerificationInfo (env_of owner 250) 0 approved
       = Inr (True, True, 200, 31536200, ''employerHashX'', owner)"
    "getRequestInfo (env_of owner 250) 0 approved = Inr (owner, False, 100, ''Qm'')"
    "getUserVerifications (env_of owner 250) owner approved = Inr [0]"
    "getUserRequests (env_of owner 250) owner approved = Inr [0]"
    by (simp_all add: approved_eq scenario_defs getVerificationInfo_def getRequestInfo_def
        getUserVerifications_def getUserRequests_def validVerification_def)
  have stored: "encryptedIncomeLevel (verifications approved 0) = Euint8 42"
    "encryptedEmploymentMonths (verifications approved 0) = Euint8 48"
    "claimedIncomeLevel (verificationRequests approved 0) = Euint8 42"
    "employmentDuration (verificationRequests approved 0) = Euint8 48"
    by (simp_all add: approved_eq)
  note g = public_getters_unguarded [where e = "env_of stranger 250" and k = 0
      and s = approved and u = owner and i = 0 and a = stranger and e' = "env_of owner 250"
      and info = "(True, True, 200, 31536200, ''employerHashX'', owner)"
      and rq = owner and pending = False and time = 100 and doc = "''Qm''" and ids = "[0]"]
  from g refused granted stored show ?thesis
    by (simp add: approved_eq scenario_defs)
qed

section \<open>Submitting a request (C8)\<close>

text \<open>
  C8 states that a valid submission returns the new request identifier. The function is
  declared without \<^verbatim>\<open>returns\<close>: the valid submission of the scenario succeeds
  with empty return data, which is not the identifier 0 it allocates.
\<close>

theorem requestIncomeVerification_returns_id_counterexample:
  "(42 :: u8) > 0 \<and> (48 :: u8) > 0 \<and> ''Qm'' \<noteq> []
   \<and> fst (transact (env_of owner 100) (RequestIncomeVerification 42 48 ''Qm'') deployed)
       = Inr RNone
   \<and> fst (transact (env_of owner 100) (RequestIncomeVerification 42 48 ''Qm'') deployed)
       \<noteq> Inr (RUint (requestCounter deployed))"
  by (simp add: deployed_eq call_defs fn_defs scenario_defs Let_def)

text \<open>
  C8, amended. For every valid submission (income level and employment months above 0,
  non-empty document hash) made while the request counter is below its maximum, the
  call succeeds and returns no data; the identifier it allocates is the previous value
  of \<open>requestCounter\<close>, under which the pending request is stored, which is appended
  to the caller's request list and reported in the \<open>VerificationRequested\<close> event,
  and the counter is incremented.
\<close>

theorem requestIncomeVerification_result:
  assumes "incomeLevel > 0" and "employmentMonths > 0" and "docHash \<noteq> []"
    and "unat (requestCounter s) + 1 < 2 ^ 256"
  shows "fst (transact e (RequestIncomeVerification incomeLevel employmentMonths docHash) s)
           = Inr RNone
     \<and> requestCounter
          (snd (transact e (RequestIncomeVerification incomeLevel employmentMonths docHash) s))
           = requestCounter s + 1
     \<and> verificationRequests
          (snd (transact e (RequestIncomeVerification incomeLevel employmentMonths docHash) s))
          (requestCounter s)
           = \<lparr> requester = msg_sender e, claimedIncomeLevel = Euint8 incomeLevel,
               employmentDuration = Euint8 employmentMonths, isPending = True,
               requestTime = block_timestamp e, documentHash = docHash \<rparr>
     \<and> userRequests
          (snd (transact e (RequestIncomeVerification incomeLevel employmentMonths docHash) s))
          (msg_sender e)
           = userRequests s (msg_sender e) @ [requestCounter s]
     \<and> events
          (snd (transact e (RequestIncomeVerification incomeLevel employmentMonths docHash) s))
           = events s @ [VerificationRequested (requestCounter s) (msg_sender e)
               (block_timestamp e)]"
  using assms by (simp add: call_defs fn_defs Let_def)

text \<open>C8, amended, at the submission of the scenario.\<close>

theorem requestIncomeVerification_result_witness:
  "fst (transact (env_of owner 100) (RequestIncomeVerification 42 48 ''Qm'') deployed)
       = Inr RNone
   \<and> requestCounter requested = 1
   \<and> verificationRequests requested 0
       = \<lparr> requester = owner, claimedIncomeLevel = Euint8 42, employmentDuration = Euint8 48,
           isPending = True, requestTime = 100, documentHash = ''Qm'' \<rparr>
   \<and> userRequests requested owner = [0]
   \<and> events requested = [VerificationRequested 0 owner 100]"
proof -
  have "(42 :: u8) > 0" and "(48 :: u8) > 0" and "''Qm'' \<noteq> []"
    and "unat (requestCounter deployed) + 1 < 2 ^ 256"
    by (simp_all add: deployed_eq)
  from requestIncomeVerification_result [OF this, of "env_of owner 100"]
  have r: "fst (transact (env_of owner 100) (RequestIncomeVerification 42 48 ''Qm'') deployed)
       = Inr RNone
   \<and> requestCounter requested = requestCounter deployed + 1
   \<and> verificationRequests requested (requestCounter deployed)
       = \<lparr> requester = msg_sender (env_of owner 100), claimedIncomeLevel = Euint8 42,
           employmentDuration = Euint8 48, isPending = True,
           requestTime = block_timestamp (env_of owner 100), documentHash = ''Qm'' \<rparr>
   \<and> userRequests requested (msg_sender (env_of owner 100))
       = userRequests deployed (msg_sender (env_of owner 100)) @ [requestCounter deployed]
   \<and> events requested = events deployed @ [VerificationRequested (requestCounter deployed)
        (msg_sender (env_of owner 100)) (block_timestamp (env_of owner 100))]"
    unfolding requested_def .
  have "requestCounter deployed = 0" and "events deployed = []"
    and "userRequests deployed owner = []" and "msg_sender (env_of owner 100) = owner"
    and "block_timestamp (env_of owner 100) = 100"
    by (simp_all add: deployed_eq env_of_def)
  with r show ?thesis
    by simp
qed

section \<open>Failures of deactivation (C9)\<close>

text \<open>
  C9 states that \<open>deactivateVerification\<close> fails only with an authorization error or
  with an unknown identifier. The owner's second deactivation of the same record fails
  with \<^verbatim>\<open>Verification not active\<close>, which is neither of the two.
\<close>

theorem deactivateVerification_failures_counterexample:
  "fst (transact (env_of owner 400) (DeactivateVerification 0) deactivated)
     = Inl (Revert ''Verification not active'')
   \<and> fst (transact (env_of owner 400) (DeactivateVerification 0) deactivated)
     \<noteq> Inl (Revert ''Not authorized'')
   \<and> fst (transact (env_of owner 400) (DeactivateVerification 0) deactivated)
     \<noteq> Inl (Revert ''Invalid verification ID'')"
  by (simp add: deactivated_eq call_defs fn_defs scenario_defs)

text \<open>
  C9, amended. \<open>deactivateVerification\<close> fails exactly when a precondition is
  violated, and with the error of the first violated check in this order: identifier
  not allocated, record not active, record expired, caller neither owner nor
  authority. These four are its only failures; otherwise it succeeds.
\<close>

theorem deactivateVerification_failures:
  "fst (transact e (DeactivateVerification verificationId) s) =
     (if \<not> verificationId < verificationCount s then Inl (Revert ''Invalid verification ID'')
      else if \<not> isActive (verifications s verificationId)
        then Inl (Revert ''Verification not active'')
      else if \<not> block_timestamp e \<le> expiryTime (verifications s verificationId)
        then Inl (Revert ''Verification expired'')
      else if \<not> (verifiedUser (verifications s verificationId) = msg_sender e
                   \<or> msg_sender e = verificationAuthority s)
        then Inl (Revert ''Not authorized'')
      else Inr RNone)
   \<and> (\<forall>err. fst (transact e (DeactivateVerification verificationId) s) = Inl err \<longrightarrow>
         err = Revert ''Invalid verification ID'' \<or> err = Revert ''Verification not active''
         \<or> err = Revert ''Verification expired'' \<or> err = Revert ''Not authorized'')"
  by (simp add: call_defs deactivateVerification_def validVerification_def emit_def Let_def)

text \<open>C9, amended: each of the four failures and the success, at concrete inputs.\<close>

theorem deactivateVerification_failures_witness:
  "fst (transact (env_of stranger 250) (DeactivateVerification 0) approved)
     = Inl (Revert ''Not authorized'')
   \<and> fst (transact (env_of owner 250) (DeactivateVerification 1) approved)
     = Inl (Revert ''Invalid verification ID'')
   \<and> fst (transact (env_of owner 31536201) (DeactivateVerification 0) approved)
     = Inl (Revert ''Verification expired'')
   \<and> fst (transact (env_of owner 400) (DeactivateVerification 0) deactivated)
     = Inl (Revert ''Verification not active'')
   \<and> fst (transact (env_of owner 250) (DeactivateVerification 0) approved) = Inr RNone"
  using deactivateVerification_failures [of "env_of stranger 250" 0 approved]
    deactivateVerification_failures [of "env_of owner 250" 1 approved]
    deactivateVerification_failures [of "env_of owner 31536201" 0 approved]
    deactivateVerification_failures [of "env_of owner 400" 0 deactivated]
    deactivateVerification_failures [of "env_of owner 250" 0 approved]
  by (simp add: approved_eq deactivated_eq scenario_defs)

section \<open>Callers that are neither owner nor authority (C2)\<close>

text \<open>
  C2 states that such a caller always fails with the authorization error. On the
  deactivated record of the scenario a stranger's \<open>getVerificationInfo\<close> fails with
  \<^verbatim>\<open>Verification not active\<close> instead: the modifier \<open>validVerification\<close>
  runs before the check of the caller.
\<close>

theorem unauthorized_counterexample:
  "msg_sender (env_of stranger 400) \<noteq> verifiedUser (verifications deactivated 0)
   \<and> msg_sender (env_of stranger 400) \<noteq> verificationAuthority deactivated
   \<and> getVerificationInfo (env_of stranger 400) 0 deactivated
       = Inl (Revert ''Verification not active'')
   \<and> getVerificationInfo (env_of stranger 400) 0 deactivated
       \<noteq> Inl (Revert ''Not authorized'')"
  by (simp add: deactivated_eq scenario_defs getVerificationInfo_def validVerification_def)

text \<open>
  C2, amended. For every caller that is neither the owner nor the authority:
  \<open>getUserVerifications\<close> and \<open>getUserRequests\<close> fail with \<^verbatim>\<open>Not authorized\<close>;
  \<open>getVerificationInfo\<close>, \<open>verifyIncomeThreshold\<close> and \<open>deactivateVerification\<close>
  fail, return no data and leave the state as it was, with \<^verbatim>\<open>Not authorized\<close>
  when the record passes \<open>validVerification\<close> and with that modifier's error
  otherwise.
\<close>

theorem unauthorized_callers_fail:
  assumes "msg_sender e \<noteq> verificationAuthority s"
  shows "(user \<noteq> msg_sender e \<longrightarrow>
            getUserVerifications e user s = Inl (Revert ''Not authorized'')
          \<and> getUserRequests e user s = Inl (Revert ''Not authorized''))
     \<and> (verifiedUser (verifications s verificationId) \<noteq> msg_sender e \<longrightarrow>
          isl (getVerificationInfo e verificationId s)
        \<and> isl (verifyIncomeThreshold e verificationId requiredLevel s)
        \<and> isl (fst (transact e (DeactivateVerification verificationId) s))
        \<and> snd (transact e (DeactivateVerification verificationId) s) = s
        \<and> (case validVerification e verificationId s of
              None \<Rightarrow>
                getVerificationInfo e verificationId s = Inl (Revert ''Not authorized'')
              \<and> verifyIncomeThreshold e verificationId requiredLevel s
                  = Inl (Revert ''Not authorized'')
              \<and> fst (transact e (DeactivateVerification verificationId) s)
                  = Inl (Revert ''Not authorized'')
            | Some err \<Rightarrow>
                getVerificationInfo e verificationId s = Inl err
              \<and> verifyIncomeThreshold e verificationId requiredLevel s = Inl err
              \<and> fst (transact e (DeactivateVerification verificationId) s) = Inl err))"
  using assms
  by (auto simp: getUserVerifications_def getUserRequests_def getVerificationInfo_def
      verifyIncomeThreshold_def call_defs deactivateVerification_def Let_def
      split: option.splits)

text \<open>C2, amended, for a stranger and the valid record of the scenario.\<close>

theorem unauthorized_callers_fail_witness:
  "msg_sender (env_of stranger 250) \<noteq> verificationAuthority approved
   \<and> owner \<noteq> msg_sender (env_of stranger 250)
   \<and> verifiedUser (verifications approved 0) \<noteq> msg_sender (env_of stranger 250)
   \<and> validVerification (env_of stranger 250) 0 approved = None
   \<and> getUserVerifications (env_of stranger 250) owner approved = Inl (Revert ''Not authorized'')
   \<and> getUserRequests (env_of stranger 250) owner approved = Inl (Revert ''Not authorized'')
   \<and> getVerificationInfo (env_of stranger 250) 0 approved = Inl (Revert ''Not authorized'')
   \<and> verifyIncomeThreshold (env_of stranger 250) 0 50 approved = Inl (Revert ''Not authorized'')
   \<and> transact (env_of stranger 250) (DeactivateVerification 0) approved
       = (Inl (Revert ''Not authorized''), approved)"
proof -
  have a: "msg_sender (env_of stranger 250) \<noteq> verificationAuthority approved"
    by (simp add: approved_eq scenario_defs)
  have v: "validVerification (env_of stranger 250) 0 approved = None"
    by (simp add: approved_eq scenario_defs validVerification_def)
  have "owner \<noteq> msg_sender (env_of stranger 250)"
    and "verifiedUser (verifications approved 0) \<noteq> msg_sender (env_of stranger 250)"
    by (simp_all add: approved_eq scenario_defs)
  with unauthorized_callers_fail [OF a, of owner 0 50] a v show ?thesis
    by (simp add: prod_eq_iff)
qed


section \<open>Failures and the state (C7)\<close>

lemma requestIncomeVerification_Revert:
  "fst (requestIncomeVerification e a b d s) = Inl (Revert m) \<Longrightarrow>
   snd (requestIncomeVerification e a b d s) = s"
  by (simp add: requestIncomeVerification_def Let_def split: if_splits option.splits)

lemma processVerificationRequest_Revert:
  "fst (processVerificationRequest e i h a s) = Inl (Revert m) \<Longrightarrow>
   snd (processVerificationRequest e i h a s) = s"
  by (simp add: processVerificationRequest_def Let_def split: if_splits option.splits)

lemma deactivateVerification_Revert:
  "fst (deactivateVerification e i s) = Inl (Revert m) \<Longrightarrow>
   snd (deactivateVerification e i s) = s"
  by (simp add: deactivateVerification_def Let_def split: if_splits option.splits)

lemma updateVerificationAuthority_Revert:
  "fst (updateVerificationAuthority e a s) = Inl (Revert m) \<Longrightarrow>
   snd (updateVerificationAuthority e a s) = s"
  by (simp add: updateVerificationAuthority_def split: if_splits option.splits)

lemma nonview_Revert:
  "fst (nonview p) = Inl (Revert m) \<longleftrightarrow> fst p = Inl (Revert m)"
  by (simp add: nonview_def returning_def split: sum.splits)

lemma dispatch_Revert:
  "fst (dispatch e c s) = Inl (Revert m) \<Longrightarrow> snd (dispatch e c s) = s"
proof (cases c)
  case (RequestIncomeVerification a b d)
  assume "fst (dispatch e c s) = Inl (Revert m)"
  with RequestIncomeVerification show ?thesis
    by (simp add: nonview_Revert) (simp add: nonview_def requestIncomeVerification_Revert)
next
  case (ProcessVerificationRequest i h a)
  assume "fst (dispatch e c s) = Inl (Revert m)"
  with ProcessVerificationRequest show ?thesis
    by (simp add: nonview_Revert) (simp add: nonview_def processVerificationRequest_Revert)
next
  case (DeactivateVerification i)
  assume "fst (dispatch e c s) = Inl (Revert m)"
  with DeactivateVerification show ?thesis
    by (simp add: nonview_Revert) (simp add: nonview_def deactivateVerification_Revert)
next
  case (UpdateVerificationAuthority a)
  assume "fst (dispatch e c s) = Inl (Revert m)"
  with UpdateVerificationAuthority show ?thesis
    by (simp add: nonview_Revert) (simp add: nonview_def updateVerificationAuthority_Revert)
qed (simp_all add: view_def)

text \<open>
  C7. For every call, caller, time and starting state: when the call fails, with any
  error, the state after it is the state before it; and every failed check (a revert
  with a message) happens while the working storage still equals the starting state,
  that is, before any write.
\<close>

theorem failure_changes_nothing:
  "(isl (fst (transact e c s)) \<longrightarrow> snd (transact e c s) = s)
   \<and> (\<forall>m. fst (dispatch e c s) = Inl (Revert m) \<longrightarrow> snd (dispatch e c s) = s)"
  by (auto simp: transact_def dispatch_Revert split: prod.splits sum.splits)


text \<open>
  C7, at concrete inputs: a stranger's \<open>processVerificationRequest\<close> fails its
  check and leaves the state; an approval at the largest timestamp overflows the expiry
  computation after \<open>isPending\<close> was cleared in the working storage, and the
  transaction restores the pending request.
\<close>

theorem failure_changes_nothing_witness:
  "fst (transact (env_of stranger 150) (ProcessVerificationRequest 0 ''employerHashX'' True)
          requested) = Inl (Revert ''Not authorized'')
   \<and> snd (transact (env_of stranger 150) (ProcessVerificationRequest 0 ''employerHashX'' True)
          requested) = requested
   \<and> fst (dispatch (env_of stranger 150) (ProcessVerificationRequest 0 ''employerHashX'' True)
          requested) = Inl (Revert ''Not authorized'')
   \<and> snd (dispatch (env_of stranger 150) (ProcessVerificationRequest 0 ''employerHashX'' True)
          requested) = requested
   \<and> fst (dispatch (env_of authority 115792089237316195423570985008687907853269984665640564039457584007913129639935) (ProcessVerificationRequest 0 ''employerHashX'' True)
          requested) = Inl (Panic 17)
   \<and> \<not> isPending (verificationRequests (snd (dispatch (env_of authority 115792089237316195423570985008687907853269984665640564039457584007913129639935)
          (ProcessVerificationRequest 0 ''employerHashX'' True) requested)) 0)
   \<and> isPending (verificationRequests (snd (transact (env_of authority 115792089237316195423570985008687907853269984665640564039457584007913129639935)
          (ProcessVerificationRequest 0 ''employerHashX'' True) requested)) 0)"
proof -
  have d: "fst (dispatch (env_of stranger 150)
      (ProcessVerificationRequest 0 ''employerHashX'' True) requested)
        = Inl (Revert ''Not authorized'')"
    by (simp add: requested_eq nonview_def returning_def processVerificationRequest_def
        onlyAuthority_def scenario_defs)
  then have t: "fst (transact (env_of stranger 150)
      (ProcessVerificationRequest 0 ''employerHashX'' True) requested)
        = Inl (Revert ''Not authorized'')"
    by (simp only: fst_transact)
  have p: "fst (dispatch (env_of authority 115792089237316195423570985008687907853269984665640564039457584007913129639935)
      (ProcessVerificationRequest 0 ''employerHashX'' True) requested) = Inl (Panic 17)
    \<and> \<not> isPending (verificationRequests (snd (dispatch (env_of authority 115792089237316195423570985008687907853269984665640564039457584007913129639935)
          (ProcessVerificationRequest 0 ''employerHashX'' True) requested)) 0)"
    by (simp add: requested_eq nonview_def returning_def processVerificationRequest_def
        onlyAuthority_def scenario_defs checked_add_def VERIFICATION_VALIDITY_PERIOD_def)
  then have "isl (fst (transact (env_of authority 115792089237316195423570985008687907853269984665640564039457584007913129639935)
      (ProcessVerificationRequest 0 ''employerHashX'' True) requested))"
    by (simp add: fst_transact)
  with failure_changes_nothing [of "env_of authority 115792089237316195423570985008687907853269984665640564039457584007913129639935"
      "ProcessVerificationRequest 0 ''employerHashX'' True" requested]
  have "isPending (verificationRequests (snd (transact (env_of authority 115792089237316195423570985008687907853269984665640564039457584007913129639935)
          (ProcessVerificationRequest 0 ''employerHashX'' True) requested)) 0)"
    by (simp add: requested_eq)
  with failure_changes_nothing [of "env_of stranger 150"
      "ProcessVerificationRequest 0 ''employerHashX'' True" requested] d t p
  show ?thesis
    by simp
qed

section \<open>Approval and rejection (C5)\<close>

text \<open>
  C5. Every successful approval creates, under the previous value of
  \<open>verificationCount\<close>, a record that is verified and active, whose verification
  time is the current time and whose expiry time is exactly the verification time plus
  365 days (without wrap-around), owned by the requester, and increments the counter.
  Every successful rejection leaves the counter, the records and the users' record
  lists unchanged.
\<close>

theorem approval_creates_record:
  "(transact e (ProcessVerificationRequest requestId h True) s = (Inr r, s') \<longrightarrow>
       isVerified (verifications s' (verificationCount s))
     \<and> isActive (verifications s' (verificationCount s))
     \<and> verificationTime (verifications s' (verificationCount s)) = block_timestamp e
     \<and> expiryTime (verifications s' (verificationCount s))
         = verificationTime (verifications s' (verificationCount s))
           + VERIFICATION_VALIDITY_PERIOD
     \<and> unat (expiryTime (verifications s' (verificationCount s)))
         = unat (verificationTime (verifications s' (verificationCount s))) + 365 * 86400
     \<and> verifiedUser (verifications s' (verificationCount s))
         = requester (verificationRequests s requestId)
     \<and> employerHash (verifications s' (verificationCount s)) = h
     \<and> verificationCount s' = verificationCount s + 1
     \<and> unat (verificationCount s') = unat (verificationCount s) + 1)
   \<and> (transact e (ProcessVerificationRequest requestId h False) s = (Inr r, s') \<longrightarrow>
       verificationCount s' = verificationCount s
     \<and> verifications s' = verifications s
     \<and> userVerifications s' = userVerifications s)"
proof (intro conjI impI)
  assume "transact e (ProcessVerificationRequest requestId h False) s = (Inr r, s')"
  then have *: "processVerificationRequest e requestId h False s = (Inr (), s')"
    by (simp add: transact_Inr nonview_Inr)
  from * show "verificationCount s' = verificationCount s"
    by (auto simp: processVerificationRequest_def split: if_splits option.splits)
  from * show "verifications s' = verifications s"
    by (auto simp: processVerificationRequest_def split: if_splits option.splits)
  from * show "userVerifications s' = userVerifications s"
    by (auto simp: processVerificationRequest_def split: if_splits option.splits)
next
  assume "transact e (ProcessVerificationRequest requestId h True) s = (Inr r, s')"
  then have "processVerificationRequest e requestId h True s = (Inr (), s')"
    by (simp add: transact_Inr nonview_Inr)
  then obtain expiry c where
    ex: "checked_add (block_timestamp e) VERIFICATION_VALIDITY_PERIOD = Some expiry"
    and c: "checked_add (verificationCount s) 1 = Some c"
    and v: "verifications s' (verificationCount s) =
      \<lparr> encryptedIncomeLevel = claimedIncomeLevel (verificationRequests s requestId),
        encryptedEmploymentMonths = employmentDuration (verificationRequests s requestId),
        isVerified = True, isActive = True, verificationTime = block_timestamp e,
        expiryTime = expiry, employerHash = h,
        verifiedUser = requester (verificationRequests s requestId) \<rparr>"
    and n: "verificationCount s' = c"
    by (auto simp: processVerificationRequest_def Let_def checkIncomeThreshold_def emit_def
        split: if_splits option.splits)
  note e1 = checked_add_SomeD [OF ex, THEN conjunct1]
    and e2 = checked_add_SomeD [OF ex, THEN conjunct2]
    and c1 = checked_add_SomeD [OF c, THEN conjunct1]
    and c2 = checked_add_SomeD [OF c, THEN conjunct2]
  have p: "unat VERIFICATION_VALIDITY_PERIOD = 365 * 86400"
    by (simp add: VERIFICATION_VALIDITY_PERIOD_def)
  show "isVerified (verifications s' (verificationCount s))"
    and "isActive (verifications s' (verificationCount s))"
    and "verificationTime (verifications s' (verificationCount s)) = block_timestamp e"
    and "verifiedUser (verifications s' (verificationCount s))
         = requester (verificationRequests s requestId)"
    and "employerHash (verifications s' (verificationCount s)) = h"
    by (simp_all add: v)
  show "expiryTime (verifications s' (verificationCount s))
         = verificationTime (verifications s' (verificationCount s))
           + VERIFICATION_VALIDITY_PERIOD"
    by (simp add: v e1)
  show "unat (expiryTime (verifications s' (verificationCount s)))
         = unat (verificationTime (verifications s' (verificationCount s))) + 365 * 86400"
    using e2 p by (simp add: v)
  show "verificationCount s' = verificationCount s + 1"
    by (simp add: n c1)
  show "unat (verificationCount s') = unat (verificationCount s) + 1"
    using c2 by (simp add: n)
qed


text \<open>C5, for the approval of the scenario and for a rejection of the same request.\<close>

theorem approval_creates_record_witness:
  "transact (env_of authority 200) (ProcessVerificationRequest 0 ''employerHashX'' True)
     requested = (Inr RNone, approved)
   \<and> verificationCount requested = 0
   \<and> isVerified (verifications approved 0)
   \<and> isActive (verifications approved 0)
   \<and> verificationTime (verifications approved 0) = 200
   \<and> expiryTime (verifications approved 0) = 200 + VERIFICATION_VALIDITY_PERIOD
   \<and> unat (expiryTime (verifications approved 0)) = 200 + 365 * 86400
   \<and> verificationCount approved = 1
   \<and> fst (transact (env_of authority 200) (ProcessVerificationRequest 0 ''employerHashX'' False)
        requested) = Inr RNone
   \<and> verificationCount (snd (transact (env_of authority 200)
        (ProcessVerificationRequest 0 ''employerHashX'' False) requested)) = 0"
proof -
  have a: "transact (env_of authority 200) (ProcessVerificationRequest 0 ''employerHashX'' True)
     requested = (Inr RNone, approved)"
    by (simp add: prod_eq_iff approved_def)
      (simp add: requested_eq call_defs fn_defs scenario_defs Let_def)
  have f: "fst (transact (env_of authority 200)
      (ProcessVerificationRequest 0 ''employerHashX'' False) requested) = Inr RNone"
    by (simp add: requested_eq call_defs fn_defs scenario_defs Let_def)
  then have b: "transact (env_of authority 200)
      (ProcessVerificationRequest 0 ''employerHashX'' False) requested
      = (Inr RNone, snd (transact (env_of authority 200)
          (ProcessVerificationRequest 0 ''employerHashX'' False) requested))"
    by (simp add: prod_eq_iff)
  have c: "verificationCount requested = 0" and t: "block_timestamp (env_of authority 200) = 200"
    by (simp_all add: requested_eq env_of_def)
  note yes = approval_creates_record [of "env_of authority 200" 0 "''employerHashX''" requested
      RNone approved, THEN conjunct1, THEN mp, OF a]
  note no = approval_creates_record [of "env_of authority 200" 0 "''employerHashX''" requested
      RNone "snd (transact (env_of authority 200)
          (ProcessVerificationRequest 0 ''employerHashX'' False) requested)",
      THEN conjunct2, THEN mp, OF b]
  from yes no c t show ?thesis
    by (simp add: a f VERIFICATION_VALIDITY_PERIOD_def)
qed

section \<open>A request is processed at most once (C4)\<close>

lemma requestIncomeVerification_processed:
  assumes "requestIncomeVerification e a b d s = (Inr u, s')"
    and "i < requestCounter s" and "\<not> isPending (verificationRequests s i)"
  shows "i < requestCounter s' \<and> \<not> isPending (verificationRequests s' i)"
  using assms
  by (auto simp: requestIncomeVerification_def Let_def emit_def FHE_allow_def
      FHE_allowThis_def split: if_splits option.splits dest: less_checked_add)

lemma processVerificationRequest_processed:
  assumes "processVerificationRequest e j h a s = (Inr u, s')"
    and "i < requestCounter s" and "\<not> isPending (verificationRequests s i)"
  shows "i < requestCounter s' \<and> \<not> isPending (verificationRequests s' i)"
  using assms
  by (auto simp: processVerificationRequest_def Let_def emit_def checkIncomeThreshold_def
      split: if_splits option.splits)

lemma deactivateVerification_requests:
  "deactivateVerification e j s = (Inr u, s') \<Longrightarrow>
   requestCounter s' = requestCounter s \<and> verificationRequests s' = verificationRequests s"
  by (auto simp: deactivateVerification_def Let_def emit_def split: if_splits option.splits)

lemma processed_step:
  assumes "i < requestCounter s" and "\<not> isPending (verificationRequests s i)"
  shows "i < requestCounter (snd (transact e c s))
    \<and> \<not> isPending (verificationRequests (snd (transact e c s)) i)"
proof -
  from transact_cases [of e c s] show ?thesis
  proof
    assume "snd (transact e c s) = s"
    with assms show ?thesis by simp
  next
    assume "\<exists>r. dispatch e c s = (Inr r, snd (transact e c s))"
    then obtain r where d: "dispatch e c s = (Inr r, snd (transact e c s))" ..
    show ?thesis
    proof (cases c)
      case (RequestIncomeVerification a b dh)
      with d assms show ?thesis
        by (auto simp: nonview_Inr dest: requestIncomeVerification_processed)
    next
      case (ProcessVerificationRequest j h a)
      with d assms show ?thesis
        by (auto simp: nonview_Inr dest: processVerificationRequest_processed)
    next
      case (DeactivateVerification j)
      with d assms show ?thesis
        by (auto simp: nonview_Inr dest: deactivateVerification_requests)
    next
      case (UpdateVerificationAuthority a)
      with d assms show ?thesis
        by (auto simp: nonview_Inr dest: updateVerificationAuthority_frame)
    qed (use d assms in \<open>simp_all add: view_def\<close>)
  qed
qed

lemma processed_execs:
  "i < requestCounter s \<Longrightarrow> \<not> isPending (verificationRequests s i) \<Longrightarrow>
   i < requestCounter (execs s cs) \<and> \<not> isPending (verificationRequests (execs s cs) i)"
proof (induction s cs rule: execs.induct)
  case (1 s)
  then show ?case by simp
next
  case (2 s e c cs)
  from processed_step [OF "2.prems", of e c] "2.IH" show ?case
    by simp
qed

lemma processVerificationRequest_on_processed:
  assumes "i < requestCounter s" and "\<not> isPending (verificationRequests s i)"
  shows "transact e (ProcessVerificationRequest i h a) s =
    (if msg_sender e = verificationAuthority s then Inl (Revert ''Request not pending'')
     else Inl (Revert ''Not authorized''), s)"
  using assms
  by (simp add: call_defs processVerificationRequest_def onlyAuthority_def)

lemma processVerificationRequest_success:
  assumes "processVerificationRequest e i h a s = (Inr u, s')"
  shows "msg_sender e = verificationAuthority s \<and> i < requestCounter s
    \<and> isPending (verificationRequests s i) \<and> h \<noteq> []
    \<and> requestCounter s' = requestCounter s \<and> \<not> isPending (verificationRequests s' i)"
  using assms
  by (auto simp: processVerificationRequest_def onlyAuthority_def Let_def emit_def
      checkIncomeThreshold_def split: if_splits option.splits)

text \<open>
  C4. When \<open>processVerificationRequest\<close> succeeds on a request (approval or
  rejection), the request was pending and is no longer pending; and after any further
  run of transactions, every call of \<open>processVerificationRequest\<close> on the same
  identifier fails and changes no state, with \<^verbatim>\<open>Request not pending\<close> when the
  caller is the authority.
\<close>

theorem processVerificationRequest_once:
  assumes "transact e (ProcessVerificationRequest requestId h a) s = (Inr r, s1)"
  shows "isPending (verificationRequests s requestId)
    \<and> \<not> isPending (verificationRequests s1 requestId)
    \<and> isl (fst (transact e' (ProcessVerificationRequest requestId h' a') (execs s1 cs)))
    \<and> snd (transact e' (ProcessVerificationRequest requestId h' a') (execs s1 cs))
        = execs s1 cs
    \<and> (msg_sender e' = verificationAuthority (execs s1 cs) \<longrightarrow>
         fst (transact e' (ProcessVerificationRequest requestId h' a') (execs s1 cs))
           = Inl (Revert ''Request not pending''))"
proof -
  from assms have "processVerificationRequest e requestId h a s = (Inr (), s1)"
    by (simp add: transact_Inr nonview_Inr)
  note p = processVerificationRequest_success [OF this]
  then have "requestId < requestCounter s1" and "\<not> isPending (verificationRequests s1 requestId)"
    by simp_all
  note q = processed_execs [OF this, of cs]
  from q have "transact e' (ProcessVerificationRequest requestId h' a') (execs s1 cs) =
    (if msg_sender e' = verificationAuthority (execs s1 cs)
     then Inl (Revert ''Request not pending'') else Inl (Revert ''Not authorized''),
     execs s1 cs)"
    by (simp add: processVerificationRequest_on_processed)
  with p show ?thesis
    by simp
qed

text \<open>
  C4, for the scenario: after the approval and the owner's deactivation, a second
  processing of request 0 by the authority fails with \<^verbatim>\<open>Request not pending\<close>.
\<close>

theorem processVerificationRequest_once_witness:
  "transact (env_of authority 200) (ProcessVerificationRequest 0 ''employerHashX'' True)
     requested = (Inr RNone, approved)
   \<and> isPending (verificationRequests requested 0)
   \<and> \<not> isPending (verificationRequests approved 0)
   \<and> execs approved [(env_of owner 300, DeactivateVerification 0)] = deactivated
   \<and> msg_sender (env_of authority 400) = verificationAuthority deactivated
   \<and> transact (env_of authority 400) (ProcessVerificationRequest 0 ''other'' False) deactivated
       = (Inl (Revert ''Request not pending''), deactivated)"
proof -
  have a: "transact (env_of authority 200) (ProcessVerificationRequest 0 ''employerHashX'' True)
     requested = (Inr RNone, approved)"
    by (simp add: prod_eq_iff approved_def)
      (simp add: requested_eq call_defs fn_defs scenario_defs Let_def)
  have x: "execs approved [(env_of owner 300, DeactivateVerification 0)] = deactivated"
    by (simp add: deactivated_def)
  have m: "msg_sender (env_of authority 400) = verificationAuthority deactivated"
    by (simp add: deactivated_eq scenario_defs)
  from processVerificationRequest_once [OF a, of "env_of authority 400" "''other''" False
      "[(env_of owner 300, DeactivateVerification 0)]"] a x m
  show ?thesis
    by (simp add: prod_eq_iff)
qed


section \<open>Deactivation is final (C10)\<close>

lemma requestIncomeVerification_verifications:
  "requestIncomeVerification e a b d s = (Inr u, s') \<Longrightarrow>
   verificationCount s' = verificationCount s \<and> verifications s' = verifications s"
  by (auto simp: requestIncomeVerification_def Let_def emit_def FHE_allow_def
      FHE_allowThis_def split: if_splits option.splits)

lemma processVerificationRequest_verifications:
  assumes "processVerificationRequest e j h a s = (Inr u, s')"
    and "i < verificationCount s"
  shows "i < verificationCount s' \<and> verifications s' i = verifications s i"
  using assms
  by (auto simp: processVerificationRequest_def Let_def emit_def checkIncomeThreshold_def
      split: if_splits option.splits dest: less_checked_add)

lemma deactivateVerification_verifications:
  assumes "deactivateVerification e j s = (Inr u, s')"
  shows "verificationCount s' = verificationCount s
    \<and> isActive (verifications s j) \<and> \<not> isActive (verifications s' j)
    \<and> (i \<noteq> j \<longrightarrow> verifications s' i = verifications s i)"
  using assms
  by (auto simp: deactivateVerification_def validVerification_def Let_def emit_def
      split: if_splits option.splits)

lemma active_step:
  assumes "i < verificationCount s"
  shows "i < verificationCount (snd (transact e c s))
    \<and> (isActive (verifications (snd (transact e c s)) i) \<longrightarrow> isActive (verifications s i))
    \<and> (c \<noteq> DeactivateVerification i \<longrightarrow>
         isActive (verifications (snd (transact e c s)) i) = isActive (verifications s i))"
proof -
  from transact_cases [of e c s] show ?thesis
  proof
    assume "snd (transact e c s) = s"
    with assms show ?thesis by simp
  next
    assume "\<exists>r. dispatch e c s = (Inr r, snd (transact e c s))"
    then obtain r where d: "dispatch e c s = (Inr r, snd (transact e c s))" ..
    show ?thesis
    proof (cases c)
      case (RequestIncomeVerification a b dh)
      with d assms show ?thesis
        by (auto simp: nonview_Inr dest: requestIncomeVerification_verifications)
    next
      case (ProcessVerificationRequest j h a)
      with d have "processVerificationRequest e j h a s = (Inr (), snd (transact e c s))"
        by (simp add: nonview_Inr)
      from processVerificationRequest_verifications [OF this assms] show ?thesis
        by simp
    next
      case (DeactivateVerification j)
      with d have "deactivateVerification e j s = (Inr (), snd (transact e c s))"
        by (simp add: nonview_Inr)
      from deactivateVerification_verifications [OF this, of i] assms DeactivateVerification
      show ?thesis
        by (cases "i = j") simp_all
    next
      case (UpdateVerificationAuthority a)
      with d assms show ?thesis
        by (auto simp: nonview_Inr dest: updateVerificationAuthority_frame)
    qed (use d assms in \<open>simp_all add: view_def\<close>)
  qed
qed

lemma inactive_execs:
  "i < verificationCount s \<Longrightarrow>
   i < verificationCount (execs s cs)
   \<and> (isActive (verifications (execs s cs) i) \<longrightarrow> isActive (verifications s i))"
proof (induction s cs rule: execs.induct)
  case (1 s)
  then show ?case by simp
next
  case (2 s e c cs)
  from active_step [OF "2.prems", of e c] "2.IH" show ?case
    by simp
qed

text \<open>
  C10. For every allocated verification record and every run of transactions: the
  record stays allocated; once it is inactive it is inactive in every later state; and
  the only call that can turn \<open>isActive\<close> from true to false is
  \<open>deactivateVerification\<close> on that record.
\<close>

theorem isActive_only_falls:
  assumes "verificationId < verificationCount s"
  shows "verificationId < verificationCount (execs s cs)
    \<and> (\<not> isActive (verifications s verificationId) \<longrightarrow>
         \<not> isActive (verifications (execs s cs) verificationId))
    \<and> (isActive (verifications s verificationId)
         \<and> \<not> isActive (verifications (snd (transact e c s)) verificationId) \<longrightarrow>
         c = DeactivateVerification verificationId)"
  using inactive_execs [OF assms, of cs] active_step [OF assms, of e c]
  by auto

text \<open>
  C10, for the scenario: the deactivated record 0 stays inactive through a new
  submission, its approval and a further deactivation attempt; and the owner's
  \<open>deactivateVerification\<close> is what turned the active record inactive.
\<close>

theorem isActive_only_falls_witness:
  "(0 :: u256) < verificationCount deactivated
   \<and> \<not> isActive (verifications deactivated 0)
   \<and> \<not> isActive (verifications (execs deactivated
        [(env_of owner 500, RequestIncomeVerification 42 48 ''Qm''),
         (env_of authority 600, ProcessVerificationRequest 1 ''employerHashX'' True),
         (env_of authority 700, DeactivateVerification 0)]) 0)
   \<and> (0 :: u256) < verificationCount approved
   \<and> isActive (verifications approved 0)
   \<and> \<not> isActive (verifications
        (snd (transact (env_of owner 300) (DeactivateVerification 0) approved)) 0)"
proof -
  have a: "(0 :: u256) < verificationCount deactivated"
    and b: "\<not> isActive (verifications deactivated 0)"
    and c: "(0 :: u256) < verificationCount approved"
    and d: "isActive (verifications approved 0)"
    by (simp_all add: deactivated_eq approved_eq)
  from b have e: "\<not> isActive (verifications
        (snd (transact (env_of owner 300) (DeactivateVerification 0) approved)) 0)"
    by (simp add: deactivated_def)
  from isActive_only_falls [OF a, of "[(env_of owner 500, RequestIncomeVerification 42 48 ''Qm''),
         (env_of authority 600, ProcessVerificationRequest 1 ''employerHashX'' True),
         (env_of authority 700, DeactivateVerification 0)]"]
    isActive_only_falls [OF c, of "[]" "env_of owner 300" "DeactivateVerification 0"]
    a b c d e
  show ?thesis
    by simp
qed


end
